theory Spec2Isabelle
  imports Main "HOL-Library.Sublist"
begin

section \<open>Python strings\<close>

text \<open>
  The client in \<^verbatim>\<open>astroquery/esasky/core.py\<close> works on Python \<^verbatim>\<open>str\<close> values.
  They are modelled as \<^typ>\<open>string\<close>. Case conversion is the ASCII one: the letters
  \<^verbatim>\<open>A\<close>..\<^verbatim>\<open>Z\<close> and \<^verbatim>\<open>a\<close>..\<^verbatim>\<open>z\<close> are mapped onto each other and every other character is
  left alone (mission names, table names and header values of the service are ASCII).
\<close>

text \<open>Adding 32 to the code of an upper-case letter sets bit 5; subtracting 32 from the
  code of a lower-case letter clears it.\<close>

fun lower_char :: "char \<Rightarrow> char" where
  "lower_char (Char b0 b1 b2 b3 b4 b5 b6 b7) =
     (let n = (of_char (Char b0 b1 b2 b3 b4 b5 b6 b7) :: nat)
      in if 65 \<le> n \<and> n \<le> 90 then Char b0 b1 b2 b3 b4 True b6 b7
         else Char b0 b1 b2 b3 b4 b5 b6 b7)"

fun upper_char :: "char \<Rightarrow> char" where
  "upper_char (Char b0 b1 b2 b3 b4 b5 b6 b7) =
     (let n = (of_char (Char b0 b1 b2 b3 b4 b5 b6 b7) :: nat)
      in if 97 \<le> n \<and> n \<le> 122 then Char b0 b1 b2 b3 b4 False b6 b7
         else Char b0 b1 b2 b3 b4 b5 b6 b7)"

definition lower :: "string \<Rightarrow> string" where
  "lower s = map lower_char s"

definition upper :: "string \<Rightarrow> string" where
  "upper s = map upper_char s"

text \<open>\<^verbatim>\<open>s.find(sub)\<close>: the index of the first occurrence of \<open>sub\<close> in \<open>s\<close>.\<close>

fun str_find :: "string \<Rightarrow> string \<Rightarrow> nat option" where
  "str_find sub [] = (if sub = [] then Some 0 else None)"
| "str_find sub (c # cs) =
     (if prefix sub (c # cs) then Some 0 else map_option Suc (str_find sub cs))"

text \<open>\<^verbatim>\<open>sub in s\<close>.\<close>

definition str_contains :: "string \<Rightarrow> string \<Rightarrow> bool" where
  "str_contains sub s = (str_find sub s \<noteq> None)"

text \<open>\<^verbatim>\<open>s.rfind(sub)\<close>: the index of the last occurrence.\<close>

fun str_rfind :: "string \<Rightarrow> string \<Rightarrow> nat option" where
  "str_rfind sub [] = (if sub = [] then Some 0 else None)"
| "str_rfind sub (c # cs) =
     (case str_rfind sub cs of
        Some i \<Rightarrow> Some (Suc i)
      | None \<Rightarrow> if prefix sub (c # cs) then Some 0 else None)"

text \<open>\<^verbatim>\<open>s[a:b]\<close> for non-negative \<open>a\<close> and \<open>b\<close>, and \<^verbatim>\<open>s[a:]\<close>.\<close>

definition slice :: "string \<Rightarrow> nat \<Rightarrow> nat \<Rightarrow> string" where
  "slice s a b = take (b - a) (drop a s)"

definition slice_from :: "string \<Rightarrow> nat \<Rightarrow> string" where
  "slice_from s a = drop a s"

text \<open>\<^verbatim>\<open>str(n)\<close> for a Python integer: its decimal numeral.\<close>

definition digit_char :: "nat \<Rightarrow> char" where
  "digit_char d = (if d = 0 then CHR ''0'' else if d = 1 then CHR ''1''
     else if d = 2 then CHR ''2'' else if d = 3 then CHR ''3''
     else if d = 4 then CHR ''4'' else if d = 5 then CHR ''5''
     else if d = 6 then CHR ''6'' else if d = 7 then CHR ''7''
     else if d = 8 then CHR ''8'' else CHR ''9'')"

fun str_nat :: "nat \<Rightarrow> string" where
  "str_nat n = (if n < 10 then [digit_char n] else str_nat (n div 10) @ [digit_char (n mod 10)])"

declare str_nat.simps [simp del]

definition str_int :: "int \<Rightarrow> string" where
  "str_int i = (if i < 0 then CHR ''-'' # str_nat (nat (- i)) else str_nat (nat i))"

section \<open>Exceptions\<close>

text \<open>
  A Python exception object: its class name and its message. Exceptions raised by the
  collaborators of the client (HTTP transport, coordinate and unit parsing, VOTABLE and
  FITS decoding) are values of this type too.
\<close>

datatype pyexception = PyException (exc_class: string) (exc_message: string)

text \<open>
  What a call of the client can raise. \<open>TableParseError\<close> is constructed from a message
  alone; as it is raised inside an \<^verbatim>\<open>except\<close> block, Python records the exception being
  handled as its implicit context. \<open>Propagated\<close> is an exception of a collaborator that
  the client lets through.
\<close>

datatype error =
    ValueError string
  | IndexError string
  | KeyError string
  | AttributeError string
  | TableParseError (tpe_message: string) (tpe_context: pyexception)
  | Propagated pyexception

text \<open>\<^verbatim>\<open>s.index(sub, start)\<close> raises \<^verbatim>\<open>ValueError\<close> where \<^verbatim>\<open>find\<close> returns -1, and
  \<^verbatim>\<open>s[i]\<close> raises \<^verbatim>\<open>IndexError\<close> out of range.\<close>

definition str_index :: "string \<Rightarrow> string \<Rightarrow> nat \<Rightarrow> error + nat" where
  "str_index s sub start =
     (if length s < start then Inl (ValueError ''substring not found'')
      else (case str_find sub (drop start s) of
              None \<Rightarrow> Inl (ValueError ''substring not found'')
            | Some i \<Rightarrow> Inr (start + i)))"

definition str_rindex :: "string \<Rightarrow> string \<Rightarrow> error + nat" where
  "str_rindex s sub =
     (case str_rfind sub s of
        None \<Rightarrow> Inl (ValueError ''substring not found'')
      | Some i \<Rightarrow> Inr i)"

definition str_getitem :: "string \<Rightarrow> nat \<Rightarrow> error + char" where
  "str_getitem s i =
     (if i < length s then Inr (s ! i) else Inl (IndexError ''string index out of range''))"


section \<open>Python dictionaries\<close>

text \<open>
  A \<^verbatim>\<open>dict\<close> is the list of its items in insertion order, with distinct keys.
  \<^verbatim>\<open>d[k] = v\<close> replaces the value of a key that is present and appends a new key.
\<close>

type_synonym ('k, 'v) pydict = "('k \<times> 'v) list"

fun dict_set :: "('k, 'v) pydict \<Rightarrow> 'k \<Rightarrow> 'v \<Rightarrow> ('k, 'v) pydict" where
  "dict_set [] k v = [(k, v)]"
| "dict_set ((k', v') # kvs) k v =
     (if k' = k then (k', v) # kvs else (k', v') # dict_set kvs k v)"

definition dict_get :: "('k, 'v) pydict \<Rightarrow> 'k \<Rightarrow> 'v option" where
  "dict_get d k = map_of d k"

definition dict_keys :: "('k, 'v) pydict \<Rightarrow> 'k list" where
  "dict_keys d = map fst d"

definition dict_len :: "('k, 'v) pydict \<Rightarrow> nat" where
  "dict_len d = length d"

section \<open>Data model\<close>

text \<open>
  One entry of the registry documents \<^verbatim>\<open>observations\<close> and \<^verbatim>\<open>catalogs\<close>: the JSON
  object of a mission or catalog. The keys \<^verbatim>\<open>sourceLimit\<close>, \<^verbatim>\<open>orderBy\<close> and
  \<^verbatim>\<open>posTapColumn\<close> are present in catalog entries only, so reading them can raise
  \<^verbatim>\<open>KeyError\<close>.
\<close>

record metadata_entry =
  j_label :: string
  j_tapName :: string

record mission_json =
  j_mission :: string
  j_tapTable :: string
  j_isSurveyMission :: bool
  j_sourceLimit :: "int option"
  j_orderBy :: "string option"
  j_posTapColumn :: "string option"
  j_metadata :: "metadata_entry list"

text \<open>
  Floating-point numbers are a type parameter \<open>'f\<close>: the client multiplies by
  \<^verbatim>\<open>15.0\<close> and formats with \<^verbatim>\<open>%f\<close>, and both operations are taken from the
  environment. A coordinate object is seen through \<^verbatim>\<open>commons.coord_to_radec\<close>, which
  gives its right ascension in hours and its declination in degrees.
\<close>

record 'f coordinates =
  ra_hour :: 'f
  dec_deg :: 'f

definition coord_to_radec :: "'f coordinates \<Rightarrow> 'f \<times> 'f" where
  "coord_to_radec c = (ra_hour c, dec_deg c)"

text \<open>The dynamically typed arguments of the public methods.\<close>

datatype 'f position = PosStr string | PosCoord "'f coordinates" | PosOther

datatype 'f radius = RadStr string | RadQuantity 'f string | RadOther

datatype selector = SelList "string list" | SelStr string | SelOther

text \<open>A transport response, a decoded table, the TAP request parameters.\<close>

datatype response = Response (resp_url: string) (resp_content: string)

datatype table = Table (colnames: "string list") (table_rows: "string list list")

type_synonym payload = "(string, string) pydict"

text \<open>What a per-mission query returns: the request parameters in payload-only mode,
  the decoded table otherwise. \<^verbatim>\<open>len\<close> of a table is its number of rows.\<close>

datatype qvalue = QPayload payload | QTable table

fun py_len :: "qvalue \<Rightarrow> nat" where
  "py_len (QPayload d) = dict_len d"
| "py_len (QTable t) = length (table_rows t)"

type_synonym query_result = "(string, qvalue) pydict"

text \<open>What a public query method returns.\<close>

datatype retval = RNone | RDict query_result | RTableList query_result

text \<open>The attributes of the client object that \<^verbatim>\<open>_parse_xml_table\<close> assigns.\<close>

record client =
  self_response :: "response option"
  self_table_parse_error :: "pyexception option"

text \<open>
  The collaborators of the client, fixed for the duration of a call: the configuration
  (\<^verbatim>\<open>URLbase\<close>, \<^verbatim>\<open>TIMEOUT\<close>), \<^verbatim>\<open>urllib.request.urlopen\<close> followed by \<^verbatim>\<open>json.loads\<close>
  (a JSON document maps its top-level keys to lists of entries),
  \<^verbatim>\<open>commons.parse_coordinates\<close>, \<^verbatim>\<open>commons.radius_to_unit(_, unit='deg')\<close>, float
  multiplication, the literal \<^verbatim>\<open>15.0\<close>, \<^verbatim>\<open>%f\<close> formatting, \<^verbatim>\<open>BaseQuery._request\<close> and
  the VOTABLE decoding of the body of \<^verbatim>\<open>_parse_xml_table\<close>'s \<^verbatim>\<open>try\<close> block.
\<close>

record 'f env =
  URLbase :: string
  TIMEOUT :: nat
  urlopen_json :: "string \<Rightarrow> error + (string \<Rightarrow> mission_json list option)"
  parse_coordinates :: "'f position \<Rightarrow> error + 'f coordinates"
  radius_to_unit_deg :: "'f radius \<Rightarrow> error + 'f"
  float_mul :: "'f \<Rightarrow> 'f \<Rightarrow> 'f"
  float_15 :: 'f
  format_f :: "'f \<Rightarrow> string"
  request_get :: "string \<Rightarrow> payload \<Rightarrow> nat \<Rightarrow> bool \<Rightarrow> error + response"
  votable_to_table :: "response \<Rightarrow> pyexception + table"

section \<open>String constants of the class\<close>

definition FITS_STRING :: string where "FITS_STRING = ''.fits''"
definition FTZ_STRING :: string where "FTZ_STRING = ''.FTZ''"
definition TAR_STRING :: string where "TAR_STRING = ''.tar''"
definition ALL_STRING :: string where "ALL_STRING = ''all''"
definition CATALOGS_STRING :: string where "CATALOGS_STRING = ''catalogs''"
definition OBSERVATIONS_STRING :: string where "OBSERVATIONS_STRING = ''observations''"
definition MAPS_STRING :: string where "MAPS_STRING = ''Maps''"
definition ZERO_ARCMIN_STRING :: string where "ZERO_ARCMIN_STRING = ''0 arcmin''"

section \<open>Registry\<close>

text \<open>\<^verbatim>\<open>_fetch_and_parse_json(self, object_name)\<close>.\<close>

definition fetch_and_parse_json :: "'f env \<Rightarrow> string \<Rightarrow> error + mission_json list" where
  "fetch_and_parse_json env object_name =
     (let url = URLbase env @ ''/'' @ object_name
      in case urlopen_json env url of
           Inl e \<Rightarrow> Inl e
         | Inr json_response \<Rightarrow>
             (case json_response object_name of
                None \<Rightarrow> Inl (KeyError object_name)
              | Some json \<Rightarrow> Inr json))"

definition get_observation_json :: "'f env \<Rightarrow> error + mission_json list" where
  "get_observation_json env = fetch_and_parse_json env OBSERVATIONS_STRING"

definition get_catalogs_json :: "'f env \<Rightarrow> error + mission_json list" where
  "get_catalogs_json env = fetch_and_parse_json env CATALOGS_STRING"

text \<open>\<^verbatim>\<open>_json_object_field_to_list(self, json, field_name)\<close>; the field is given by its
  selector.\<close>

fun json_object_field_to_list :: "mission_json list \<Rightarrow> (mission_json \<Rightarrow> 'a) \<Rightarrow> 'a list" where
  "json_object_field_to_list [] field = []"
| "json_object_field_to_list (j # json) field = field j # json_object_field_to_list json field"

definition list_maps :: "'f env \<Rightarrow> error + string list" where
  "list_maps env =
     (case get_observation_json env of
        Inl e \<Rightarrow> Inl e
      | Inr json \<Rightarrow> Inr (json_object_field_to_list json j_mission))"

definition list_catalogs :: "'f env \<Rightarrow> error + string list" where
  "list_catalogs env =
     (case get_catalogs_json env of
        Inl e \<Rightarrow> Inl e
      | Inr json \<Rightarrow> Inr (json_object_field_to_list json j_mission))"

text \<open>\<^verbatim>\<open>_find_mission_tap_table_name(self, json, mission_name)\<close>: the first entry whose
  mission name matches, case-insensitively.\<close>

fun find_mission_tap_table_name :: "mission_json list \<Rightarrow> string \<Rightarrow> error + string" where
  "find_mission_tap_table_name [] mission_name =
     Inl (ValueError (''Input '' @ mission_name @ '' not available.''))"
| "find_mission_tap_table_name (j # json) mission_name =
     (if lower (j_mission j) = lower mission_name then Inr (j_tapTable j)
      else find_mission_tap_table_name json mission_name)"

definition find_observation_tap_table_name :: "'f env \<Rightarrow> string \<Rightarrow> error + string" where
  "find_observation_tap_table_name env mission_name =
     (case fetch_and_parse_json env OBSERVATIONS_STRING of
        Inl e \<Rightarrow> Inl e
      | Inr json \<Rightarrow> find_mission_tap_table_name json mission_name)"

definition find_catalog_tap_table_name :: "'f env \<Rightarrow> string \<Rightarrow> error + string" where
  "find_catalog_tap_table_name env mission_name =
     (case fetch_and_parse_json env CATALOGS_STRING of
        Inl e \<Rightarrow> Inl e
      | Inr json \<Rightarrow> find_mission_tap_table_name json mission_name)"

text \<open>\<^verbatim>\<open>_find_mission_parameters_in_json(self, mission_tap_name, json)\<close>.\<close>

fun find_mission_parameters_in_json :: "string \<Rightarrow> mission_json list \<Rightarrow> error + mission_json" where
  "find_mission_parameters_in_json mission_tap_name [] =
     Inl (ValueError (''Input tap name '' @ mission_tap_name @ '' not available.''))"
| "find_mission_parameters_in_json mission_tap_name (j # json) =
     (if j_tapTable j = mission_tap_name then Inr j
      else find_mission_parameters_in_json mission_tap_name json)"

definition find_observation_parameters :: "'f env \<Rightarrow> string \<Rightarrow> error + mission_json" where
  "find_observation_parameters env mission_name =
     (case get_observation_json env of
        Inl e \<Rightarrow> Inl e
      | Inr json \<Rightarrow> find_mission_parameters_in_json mission_name json)"

definition find_catalog_parameters :: "'f env \<Rightarrow> string \<Rightarrow> error + mission_json" where
  "find_catalog_parameters env catalog_name =
     (case get_catalogs_json env of
        Inl e \<Rightarrow> Inl e
      | Inr json \<Rightarrow> find_mission_parameters_in_json catalog_name json)"

section \<open>Input validation\<close>

definition sanatize_input_position :: "'f position \<Rightarrow> error + 'f position" where
  "sanatize_input_position position =
     (case position of
        PosStr s \<Rightarrow> Inr position
      | PosCoord c \<Rightarrow> Inr position
      | PosOther \<Rightarrow> Inl (ValueError ''Position must be either a string or astropy.coordinates''))"

definition sanatize_input_radius :: "'f radius \<Rightarrow> error + 'f radius" where
  "sanatize_input_radius radius =
     (case radius of
        RadStr s \<Rightarrow> Inr radius
      | RadQuantity v u \<Rightarrow> Inr radius
      | RadOther \<Rightarrow> Inl (ValueError ''Radius must be either a string or astropy.units.Quantity''))"

definition sanatize_input_mission :: "'f env \<Rightarrow> selector \<Rightarrow> error + string list" where
  "sanatize_input_mission env missions =
     (case missions of
        SelList l \<Rightarrow> Inr l
      | SelStr s \<Rightarrow> (if lower s = ALL_STRING then list_maps env else Inr [s])
      | SelOther \<Rightarrow> Inl (ValueError ''Mission must be either a string or a list of missions''))"

definition sanatize_input_catalogs :: "'f env \<Rightarrow> selector \<Rightarrow> error + string list" where
  "sanatize_input_catalogs env catalogs =
     (case catalogs of
        SelList l \<Rightarrow> Inr l
      | SelStr s \<Rightarrow> (if lower s = ALL_STRING then list_maps env else Inr [s])
      | SelOther \<Rightarrow> Inl (ValueError ''Catalog must be either a string or a list of catalogs''))"

section \<open>Query builder\<close>

text \<open>The loop over \<^verbatim>\<open>range(len(metadata))\<close> that both builders run: every TAP name is
  preceded by a blank, and followed by a comma unless it is the last one.\<close>

function metadata_tap_names_loop :: "metadata_entry list \<Rightarrow> nat \<Rightarrow> string \<Rightarrow> string" where
  "metadata_tap_names_loop metadata i metadata_tap_names =
     (if i < length metadata then
        metadata_tap_names_loop metadata (Suc i)
          (if i < length metadata - 1
           then metadata_tap_names @ '' '' @ j_tapName (metadata ! i) @ '',''
           else metadata_tap_names @ '' '' @ j_tapName (metadata ! i))
      else metadata_tap_names)"
  by pat_completeness auto
termination
  by (relation "measure (\<lambda>(metadata, i, acc). length metadata - i)") auto

declare metadata_tap_names_loop.simps [simp del]

text \<open>\<^verbatim>\<open>_build_observation_query(self, coordinates, radius, json)\<close>.\<close>

definition build_observation_query ::
  "'f env \<Rightarrow> 'f coordinates \<Rightarrow> 'f radius \<Rightarrow> mission_json \<Rightarrow> error + string" where
  "build_observation_query env coordinates radius json =
     (case coord_to_radec coordinates of (raHours, dec) \<Rightarrow>
        let ra = float_mul env raHours (float_15 env)
        in case radius_to_unit_deg env radius of
             Inl e \<Rightarrow> Inl e
           | Inr radiusDeg \<Rightarrow>
               let select_query = ''SELECT DISTINCT'';
                   metadata = j_metadata json;
                   metadata_tap_names = metadata_tap_names_loop metadata 0 [];
                   from_query = '' FROM '' @ j_tapTable json;
                   where_query =
                     (if j_isSurveyMission json then '' WHERE 1=CONTAINS(pos,''
                      else '' WHERE 1=CONTAINS(fov,'');
                   region_query =
                     '' CIRCLE('ICRS', '' @ format_f env ra @ '', '' @ format_f env dec @ '', ''
                       @ format_f env radiusDeg @ ''));''
               in Inr (select_query @ metadata_tap_names @ from_query @ where_query
                         @ region_query))"

text \<open>\<^verbatim>\<open>_build_catalog_query(self, coordinates, radius, json)\<close>.\<close>

definition build_catalog_query ::
  "'f env \<Rightarrow> 'f coordinates \<Rightarrow> 'f radius \<Rightarrow> mission_json \<Rightarrow> error + string" where
  "build_catalog_query env coordinates radius json =
     (case coord_to_radec coordinates of (raHours, dec) \<Rightarrow>
        let ra = float_mul env raHours (float_15 env)
        in case radius_to_unit_deg env radius of
             Inl e \<Rightarrow> Inl e
           | Inr radiusDeg \<Rightarrow>
               (case j_sourceLimit json of
                  None \<Rightarrow> Inl (KeyError ''sourceLimit'')
                | Some source_limit \<Rightarrow>
                    let select_query = ''SELECT TOP '' @ str_int source_limit @ '' '';
                        metadata = j_metadata json;
                        metadata_tap_names = metadata_tap_names_loop metadata 0 [];
                        from_query = '' FROM '' @ j_tapTable json
                    in case j_posTapColumn json of
                         None \<Rightarrow> Inl (KeyError ''posTapColumn'')
                       | Some pos_tap \<Rightarrow>
                           let where_query =
                                 '' WHERE 1=CONTAINS('' @ pos_tap @ '', CIRCLE('ICRS', ''
                                   @ format_f env ra @ '', '' @ format_f env dec @ '', ''
                                   @ format_f env radiusDeg @ ''))''
                           in case j_orderBy json of
                                None \<Rightarrow> Inl (KeyError ''orderBy'')
                              | Some order_by \<Rightarrow>
                                  let order_by_query = '' ORDER BY '' @ order_by @ '';''
                                  in Inr (select_query @ metadata_tap_names @ from_query
                                            @ where_query @ order_by_query)))"

section \<open>Executor and result parser\<close>

text \<open>\<^verbatim>\<open>_create_request_payload(self, query)\<close>: the dictionary display with four keys.\<close>

definition create_request_payload :: "string \<Rightarrow> payload" where
  "create_request_payload query =
     dict_set (dict_set (dict_set (dict_set [] ''REQUEST'' ''doQuery'') ''LANG'' ''ADQL'')
       ''FORMAT'' ''VOTABLE'') ''QUERY'' query"

definition send_get_request :: "'f env \<Rightarrow> string \<Rightarrow> payload \<Rightarrow> bool \<Rightarrow> error + response" where
  "send_get_request env url_extension request_payload cache =
     (let URL = URLbase env @ url_extension
      in request_get env URL request_payload (TIMEOUT env) cache)"

definition PARSE_ERROR_MESSAGE :: string where
  "PARSE_ERROR_MESSAGE =
     ''Failed to parse ESASky VOTABLE result! The raw response can be ''
     @ ''found in self.response, and the error in ''
     @ ''self.table_parse_error.''"

text \<open>\<^verbatim>\<open>_parse_xml_table(self, response)\<close>: the result or the error raised, and the client
  object afterwards.\<close>

definition parse_xml_table ::
  "'f env \<Rightarrow> client \<Rightarrow> response \<Rightarrow> (error + table) \<times> client" where
  "parse_xml_table env self response =
     (case votable_to_table env response of
        Inr table \<Rightarrow> (Inr table, self)
      | Inl ex \<Rightarrow>
          (Inl (TableParseError PARSE_ERROR_MESSAGE ex),
           self\<lparr>self_response := Some response, self_table_parse_error := Some ex\<rparr>))"

text \<open>\<^verbatim>\<open>_get_and_parse_from_tap(self, request_payload, cache = True)\<close>.\<close>

definition get_and_parse_from_tap ::
  "'f env \<Rightarrow> client \<Rightarrow> payload \<Rightarrow> bool \<Rightarrow> (error + table) \<times> client" where
  "get_and_parse_from_tap env self request_payload cache =
     (case send_get_request env ''/tap/sync'' request_payload cache of
        Inl e \<Rightarrow> (Inl e, self)
      | Inr response \<Rightarrow> parse_xml_table env self response)"

section \<open>Region queries\<close>

text \<open>\<^verbatim>\<open>_query_region_maps\<close> and \<^verbatim>\<open>_query_region_catalog\<close>, the per-mission queries
  (the leading underscore of a private method is written \<open>priv_\<close>).\<close>

definition priv_query_region_maps ::
  "'f env \<Rightarrow> client \<Rightarrow> 'f coordinates \<Rightarrow> 'f radius \<Rightarrow> string \<Rightarrow> bool \<Rightarrow> (error + qvalue) \<times> client" where
  "priv_query_region_maps env self coordinates radius observation_name get_query_payload =
     (case find_observation_tap_table_name env observation_name of
        Inl e \<Rightarrow> (Inl e, self)
      | Inr observation_tap_name \<Rightarrow>
          (case find_observation_parameters env observation_tap_name of
             Inl e \<Rightarrow> (Inl e, self)
           | Inr json \<Rightarrow>
               (case build_observation_query env coordinates radius json of
                  Inl e \<Rightarrow> (Inl e, self)
                | Inr query \<Rightarrow>
                    let request_payload = create_request_payload query
                    in if get_query_payload then (Inr (QPayload request_payload), self)
                       else (case get_and_parse_from_tap env self request_payload True of
                               (Inl e, self') \<Rightarrow> (Inl e, self')
                             | (Inr t, self') \<Rightarrow> (Inr (QTable t), self')))))"

definition priv_query_region_catalog ::
  "'f env \<Rightarrow> client \<Rightarrow> 'f coordinates \<Rightarrow> 'f radius \<Rightarrow> string \<Rightarrow> bool \<Rightarrow> (error + qvalue) \<times> client" where
  "priv_query_region_catalog env self coordinates radius catalog_name get_query_payload =
     (case find_catalog_tap_table_name env catalog_name of
        Inl e \<Rightarrow> (Inl e, self)
      | Inr catalog_tap_name \<Rightarrow>
          (case find_catalog_parameters env catalog_tap_name of
             Inl e \<Rightarrow> (Inl e, self)
           | Inr json \<Rightarrow>
               (case build_catalog_query env coordinates radius json of
                  Inl e \<Rightarrow> (Inl e, self)
                | Inr query \<Rightarrow>
                    let request_payload = create_request_payload query
                    in if get_query_payload then (Inr (QPayload request_payload), self)
                       else (case get_and_parse_from_tap env self request_payload True of
                               (Inl e, self') \<Rightarrow> (Inl e, self')
                             | (Inr t, self') \<Rightarrow> (Inr (QTable t), self')))))"

text \<open>\<^verbatim>\<open>_store_query_result_maps\<close> and \<^verbatim>\<open>_store_query_result_catalogs\<close>: the loop over the
  missions, which fills the dictionary it is given. An exception of a per-mission query
  ends the loop.\<close>

fun store_query_result_maps ::
  "'f env \<Rightarrow> client \<Rightarrow> query_result \<Rightarrow> string list \<Rightarrow> 'f coordinates \<Rightarrow> 'f radius \<Rightarrow> bool
     \<Rightarrow> (error + query_result) \<times> client" where
  "store_query_result_maps env self query_result [] coordinates radius get_query_payload =
     (Inr query_result, self)"
| "store_query_result_maps env self query_result (mission # missions) coordinates radius
       get_query_payload =
     (case priv_query_region_maps env self coordinates radius mission get_query_payload of
        (Inl e, self') \<Rightarrow> (Inl e, self')
      | (Inr mission_table, self') \<Rightarrow>
          store_query_result_maps env self'
            (if py_len mission_table > 0 then dict_set query_result (upper mission) mission_table
             else query_result)
            missions coordinates radius get_query_payload)"

fun store_query_result_catalogs ::
  "'f env \<Rightarrow> client \<Rightarrow> query_result \<Rightarrow> string list \<Rightarrow> 'f coordinates \<Rightarrow> 'f radius \<Rightarrow> bool
     \<Rightarrow> (error + query_result) \<times> client" where
  "store_query_result_catalogs env self query_result [] coordinates radius get_query_payload =
     (Inr query_result, self)"
| "store_query_result_catalogs env self query_result (catalog # catalogs) coordinates radius
       get_query_payload =
     (case priv_query_region_catalog env self coordinates radius catalog get_query_payload of
        (Inl e, self') \<Rightarrow> (Inl e, self')
      | (Inr catalog_table, self') \<Rightarrow>
          store_query_result_catalogs env self'
            (if py_len catalog_table > 0 then dict_set query_result (upper catalog) catalog_table
             else query_result)
            catalogs coordinates radius get_query_payload)"

text \<open>The public region queries.\<close>

definition query_region_maps ::
  "'f env \<Rightarrow> client \<Rightarrow> 'f position \<Rightarrow> 'f radius \<Rightarrow> selector \<Rightarrow> bool \<Rightarrow> (error + retval) \<times> client" where
  "query_region_maps env self position radius missions get_query_payload =
     (case sanatize_input_position position of
        Inl e \<Rightarrow> (Inl e, self)
      | Inr sanatized_position \<Rightarrow>
     (case sanatize_input_radius radius of
        Inl e \<Rightarrow> (Inl e, self)
      | Inr sanatized_radius \<Rightarrow>
     (case sanatize_input_mission env missions of
        Inl e \<Rightarrow> (Inl e, self)
      | Inr sanatized_missions \<Rightarrow>
     (case parse_coordinates env sanatized_position of
        Inl e \<Rightarrow> (Inl e, self)
      | Inr coordinates \<Rightarrow>
     (case store_query_result_maps env self [] sanatized_missions coordinates sanatized_radius
             get_query_payload of
        (Inl e, self') \<Rightarrow> (Inl e, self')
      | (Inr query_result, self') \<Rightarrow>
          if get_query_payload then (Inr (RDict query_result), self')
          else (Inr (RTableList query_result), self'))))))"

definition query_region_catalogs ::
  "'f env \<Rightarrow> client \<Rightarrow> 'f position \<Rightarrow> 'f radius \<Rightarrow> selector \<Rightarrow> bool \<Rightarrow> (error + retval) \<times> client" where
  "query_region_catalogs env self position radius catalogs get_query_payload =
     (case sanatize_input_position position of
        Inl e \<Rightarrow> (Inl e, self)
      | Inr sanatized_position \<Rightarrow>
     (case sanatize_input_radius radius of
        Inl e \<Rightarrow> (Inl e, self)
      | Inr sanatized_radius \<Rightarrow>
     (case sanatize_input_catalogs env catalogs of
        Inl e \<Rightarrow> (Inl e, self)
      | Inr sanatized_catalogs \<Rightarrow>
     (case parse_coordinates env sanatized_position of
        Inl e \<Rightarrow> (Inl e, self)
      | Inr coordinates \<Rightarrow>
     (case store_query_result_catalogs env self [] sanatized_catalogs coordinates
             sanatized_radius get_query_payload of
        (Inl e, self') \<Rightarrow> (Inl e, self')
      | (Inr query_result, self') \<Rightarrow>
          if get_query_payload then (Inr (RDict query_result), self')
          else (Inr (RTableList query_result), self'))))))"

text \<open>The public object queries call the region queries with the radius
  \<^verbatim>\<open>"0 arcmin"\<close>. Their bodies are the call alone, with no \<^verbatim>\<open>return\<close>: what the region
  query returns is dropped and the method returns \<^verbatim>\<open>None\<close>.\<close>

definition query_object_maps ::
  "'f env \<Rightarrow> client \<Rightarrow> 'f position \<Rightarrow> selector \<Rightarrow> bool \<Rightarrow> (error + retval) \<times> client" where
  "query_object_maps env self position missions get_query_payload =
     (case query_region_maps env self position (RadStr ZERO_ARCMIN_STRING) missions
             get_query_payload of
        (Inl e, self') \<Rightarrow> (Inl e, self')
      | (Inr r, self') \<Rightarrow> (Inr RNone, self'))"

definition query_object_catalogs ::
  "'f env \<Rightarrow> client \<Rightarrow> 'f position \<Rightarrow> selector \<Rightarrow> bool \<Rightarrow> (error + retval) \<times> client" where
  "query_object_catalogs env self position catalogs get_query_payload =
     (case query_region_catalogs env self position (RadStr ZERO_ARCMIN_STRING) catalogs
             get_query_payload of
        (Inl e, self') \<Rightarrow> (Inl e, self')
      | (Inr r, self') \<Rightarrow> (Inr RNone, self'))"

section \<open>Downloader\<close>

text \<open>
  \<^verbatim>\<open>_extract_file_name_from_response_header(self, headers)\<close>. The headers map a header
  name to its value; \<^verbatim>\<open>headers.get\<close> gives \<^verbatim>\<open>None\<close> for a missing header, on which
  \<^verbatim>\<open>.index\<close> raises \<^verbatim>\<open>AttributeError\<close>.
\<close>

definition extract_file_name_from_response_header :: "(string \<Rightarrow> string option) \<Rightarrow> error + string" where
  \<open>extract_file_name_from_response_header headers =
     (case headers ''Content-Disposition'' of
        None \<Rightarrow> Inl (AttributeError ''NoneType object has no attribute index'')
      | Some content_disposition \<Rightarrow>
          let filename_string = ''filename=''
          in case str_index content_disposition filename_string 0 of
               Inl e \<Rightarrow> Inl e
             | Inr i \<Rightarrow>
                 let start_index = i + length filename_string
                 in case str_getitem content_disposition start_index of
                      Inl e \<Rightarrow> Inl e
                    | Inr c \<Rightarrow>
                        let start_index = (if c = CHR ''"'' then start_index + 1 else start_index)
                        in if str_contains FITS_STRING (slice_from content_disposition start_index)
                           then (case str_index content_disposition FITS_STRING (start_index + 1) of
                                   Inl e \<Rightarrow> Inl e
                                 | Inr j \<Rightarrow>
                                     Inr (slice content_disposition start_index
                                            (j + length FITS_STRING)))
                           else if str_contains FTZ_STRING (slice_from content_disposition start_index)
                           then (case str_index content_disposition FTZ_STRING (start_index + 1) of
                                   Inl e \<Rightarrow> Inl e
                                 | Inr j \<Rightarrow>
                                     Inr (slice content_disposition start_index
                                            (j + length FTZ_STRING)))
                           else if str_contains TAR_STRING (slice_from content_disposition start_index)
                           then (case str_index content_disposition TAR_STRING (start_index + 1) of
                                   Inl e \<Rightarrow> Inl e
                                 | Inr j \<Rightarrow>
                                     Inr (slice content_disposition start_index
                                            (j + length TAR_STRING)))
                           else Inl (ValueError
                                  (''Could not find file name in header. Content disposition: ''
                                     @ content_disposition @ ''.'')))\<close>

text \<open>\<^verbatim>\<open>_extract_file_name_from_url(self, product_url)\<close>.\<close>

definition extract_file_name_from_url :: "string \<Rightarrow> error + string" where
  "extract_file_name_from_url product_url =
     (case str_rindex product_url ''/'' of
        Inl e \<Rightarrow> Inl e
      | Inr i \<Rightarrow> Inr (slice_from product_url (i + 1)))"



text \<open>\<^verbatim>\<open>_remove_extra_herschel_directory(self, file_and_directory_name, directory_path)\<close>:
  the name it returns.\<close>

definition remove_extra_herschel_directory :: "string \<Rightarrow> string \<Rightarrow> error + string" where
  "remove_extra_herschel_directory file_and_directory_name directory_path =
     (case str_index file_and_directory_name ''/'' 0 of
        Inl e \<Rightarrow> Inl e
      | Inr i \<Rightarrow> Inr (slice_from file_and_directory_name (i + 1)))"



section \<open>Destination directories\<close>

text \<open>
  The file system is the set of directories that exist. \<^verbatim>\<open>os.makedirs(p)\<close> creates
  \<open>p\<close> and every missing parent of it.
\<close>

type_synonym filesystem = "string set"

fun path_prefixes :: "string \<Rightarrow> string \<Rightarrow> string list" where
  "path_prefixes acc [] = [acc]"
| "path_prefixes acc (c # cs) =
     (if c = CHR ''/'' \<and> acc \<noteq> [] then acc # path_prefixes (acc @ [c]) cs
      else path_prefixes (acc @ [c]) cs)"

definition makedirs :: "filesystem \<Rightarrow> string \<Rightarrow> filesystem" where
  "makedirs fs p = fs \<union> set (path_prefixes [] p)"

text \<open>\<^verbatim>\<open>_create_mission_directory(self, mission, download_folder)\<close>: the directory it
  returns and the file system it leaves.\<close>

definition create_mission_directory :: "filesystem \<Rightarrow> string \<Rightarrow> string \<Rightarrow> string \<times> filesystem" where
  "create_mission_directory fs mission download_folder =
     (let mission_directory =
            (if download_folder = MAPS_STRING then MAPS_STRING @ ''/'' @ mission
             else download_folder @ ''/'' @ MAPS_STRING @ ''/'' @ mission)
      in if mission_directory \<notin> fs then (mission_directory, makedirs fs mission_directory)
         else (mission_directory, fs))"

section \<open>Terms of the specification and proof devices\<close>
















section \<open>An example service\<close>

text \<open>
  A small service on which the theorems below are run: two observation missions, one
  catalog, integers as numbers (rendered as \<^verbatim>\<open>%f\<close> renders an integral float), a
  transport that answers with the query it was sent, and a decoder that yields one row for
  the Herschel table, no row for the INTEGRAL table and fails on anything else.
\<close>

definition herschel_json :: mission_json where
  "herschel_json =
     \<lparr>j_mission = ''Herschel'', j_tapTable = ''mv_hsa_esasky_photo_fdw'',
      j_isSurveyMission = False, j_sourceLimit = None, j_orderBy = None,
      j_posTapColumn = None,
      j_metadata = [\<lparr>j_label = ''Observation ID'', j_tapName = ''observation_id''\<rparr>,
                    \<lparr>j_label = ''URL'', j_tapName = ''product_url''\<rparr>,
                    \<lparr>j_label = ''Filter'', j_tapName = ''filter''\<rparr>]\<rparr>"

definition integral_json :: mission_json where
  "integral_json =
     \<lparr>j_mission = ''INTEGRAL'', j_tapTable = ''mv_integral_fdw'',
      j_isSurveyMission = True, j_sourceLimit = None, j_orderBy = None,
      j_posTapColumn = None,
      j_metadata = [\<lparr>j_label = ''Observation ID'', j_tapName = ''observation_id''\<rparr>]\<rparr>"

definition gaia_json :: mission_json where
  "gaia_json =
     \<lparr>j_mission = ''Gaia DR1 TGA'', j_tapTable = ''mv_gaia_tgas_fdw'',
      j_isSurveyMission = False, j_sourceLimit = Some 2000,
      j_orderBy = Some ''phot_g_mean_mag'', j_posTapColumn = Some ''pos'',
      j_metadata = [\<lparr>j_label = ''Name'', j_tapName = ''name''\<rparr>,
                    \<lparr>j_label = ''RA'', j_tapName = ''ra''\<rparr>]\<rparr>"

definition example_env :: "int env" where
  "example_env =
     \<lparr>URLbase = ''http://sky.esa.int/esasky-tap'',
      TIMEOUT = 1000,
      urlopen_json = (\<lambda>url.
        if url = ''http://sky.esa.int/esasky-tap/observations''
        then Inr [''observations'' \<mapsto> [herschel_json, integral_json]]
        else if url = ''http://sky.esa.int/esasky-tap/catalogs''
        then Inr [''catalogs'' \<mapsto> [gaia_json]]
        else Inl (Propagated (PyException ''HTTPError'' ''404''))),
      parse_coordinates = (\<lambda>p.
        case p of
          PosStr s \<Rightarrow> Inr \<lparr>ra_hour = 10, dec_deg = 41\<rparr>
        | PosCoord c \<Rightarrow> Inr c
        | PosOther \<Rightarrow> Inl (Propagated (PyException ''TypeError'' ''position''))),
      radius_to_unit_deg = (\<lambda>r.
        case r of
          RadStr s \<Rightarrow>
            if s = ''0 arcmin'' then Inr 0
            else Inl (Propagated (PyException ''ValueError'' ''radius''))
        | RadQuantity v u \<Rightarrow> Inr v
        | RadOther \<Rightarrow> Inl (Propagated (PyException ''TypeError'' ''radius''))),
      float_mul = (\<lambda>a b. a * b),
      float_15 = 15,
      format_f = (\<lambda>x. str_int x @ ''.000000''),
      request_get = (\<lambda>url params timeout cache.
        case dict_get params ''QUERY'' of
          None \<Rightarrow> Inl (Propagated (PyException ''HTTPError'' ''400''))
        | Some q \<Rightarrow> Inr (Response url q)),
      votable_to_table = (\<lambda>r.
        if str_contains ''mv_hsa_esasky_photo_fdw'' (resp_content r)
        then Inr (Table [''observation_id'', ''product_url'', ''filter'']
                    [[''1342'', ''http://archives.esac.esa.int/1342'', ''250,350,500'']])
        else if str_contains ''mv_integral_fdw'' (resp_content r)
        then Inr (Table [''observation_id''] [])
        else Inl (PyException ''E19'' ''File does not appear to be a VOTABLE''))\<rparr>"

definition new_client :: client where
  "new_client = \<lparr>self_response = None, self_table_parse_error = None\<rparr>"

section \<open>Properties of the strings\<close>




lemma path_prefixes_nonempty: "path_prefixes acc p \<noteq> []"
  by (induction p arbitrary: acc) auto

lemma path_prefixes_last: "last (path_prefixes acc p) = acc @ p"
  by (induction p arbitrary: acc) (auto simp: path_prefixes_nonempty)

lemma makedirs_member: "p \<in> makedirs fs p"
proof -
  have "last (path_prefixes [] p) \<in> set (path_prefixes [] p)"
    by (rule last_in_set) (rule path_prefixes_nonempty)
  then show ?thesis
    by (simp add: makedirs_def path_prefixes_last)
qed

lemma makedirs_mono: "fs \<subseteq> makedirs fs p"
  by (simp add: makedirs_def)

section \<open>Properties of the store loops\<close>























lemma dict_keys_create_request_payload:
  "dict_keys (create_request_payload query) = [''REQUEST'', ''LANG'', ''FORMAT'', ''QUERY'']"
  by (simp add: create_request_payload_def dict_keys_def)






section \<open>Properties of the query builder and of the Herschel loop\<close>


lemma str_find_char:
  "str_find [c] s = (if c \<in> set s then Some (length (takeWhile (\<lambda>x. x \<noteq> c) s)) else None)"
  by (induction s) auto


lemma remove_extra_herschel_directory_no_slash:
  "CHR ''/'' \<notin> set name \<Longrightarrow>
     remove_extra_herschel_directory name directory_path = Inl (ValueError ''substring not found'')"
  by (simp add: remove_extra_herschel_directory_def str_index_def str_find_char)






section \<open>Occurrences of a pattern in the catalog query\<close>

































section \<open>Claims\<close>

subsection \<open>C3: the destination directory of a mission\<close>

text \<open>
  C3 as stated: for every mission and every \<^verbatim>\<open>download_folder\<close>, the directory created
  (if absent) is \<^verbatim>\<open><download_folder>/<mission>\<close>. The code nests a directory named
  \<^verbatim>\<open>Maps\<close> below every download folder other than \<^verbatim>\<open>Maps\<close> itself: for the folder
  \<^verbatim>\<open>out\<close> and the mission \<^verbatim>\<open>HST\<close> the directory is \<^verbatim>\<open>out/Maps/HST\<close>, not \<^verbatim>\<open>out/HST\<close>.
\<close>

theorem C3_counterexample:
  "fst (create_mission_directory {} ''HST'' ''out'') = ''out/Maps/HST'' \<and>
   fst (create_mission_directory {} ''HST'' ''out'') \<noteq> ''out'' @ ''/'' @ ''HST''"
  by (simp add: create_mission_directory_def MAPS_STRING_def Let_def)

text \<open>
  C3 as amended: for every mission and every \<^verbatim>\<open>download_folder\<close>, the destination
  directory is \<^verbatim>\<open>Maps/<mission>\<close> when \<^verbatim>\<open>download_folder\<close> is \<^verbatim>\<open>Maps\<close> (the default) and
  \<^verbatim>\<open><download_folder>/Maps/<mission>\<close> otherwise; it exists afterwards, nothing that
  existed is removed, and an existing directory leaves the file system unchanged.
\<close>

theorem C3_mission_directory:
  "fst (create_mission_directory fs mission download_folder) =
     (if download_folder = ''Maps'' then ''Maps/'' @ mission
      else download_folder @ ''/Maps/'' @ mission) \<and>
   fst (create_mission_directory fs mission download_folder)
     \<in> snd (create_mission_directory fs mission download_folder) \<and>
   fs \<subseteq> snd (create_mission_directory fs mission download_folder) \<and>
   (fst (create_mission_directory fs mission download_folder) \<in> fs \<longrightarrow>
      snd (create_mission_directory fs mission download_folder) = fs)"
  using makedirs_member [of "fst (create_mission_directory fs mission download_folder)" fs]
    makedirs_mono [of fs "fst (create_mission_directory fs mission download_folder)"]
  by (auto simp: create_mission_directory_def MAPS_STRING_def Let_def)

theorem C3_mission_directory_witness:
  "fst (create_mission_directory {''Maps/HST''} ''HST'' ''Maps'') = ''Maps/HST'' \<and>
   ''Maps/HST'' \<in> {''Maps/HST''} \<and>
   snd (create_mission_directory {''Maps/HST''} ''HST'' ''Maps'') = {''Maps/HST''}"
  using C3_mission_directory [of "{''Maps/HST''}" "''HST''" "''Maps''"]
  by simp

subsection \<open>C1: object queries against region queries\<close>

lemma query_object_maps_None:
  "fst (query_object_maps env self position missions flag) = Inr r \<Longrightarrow> r = RNone"
  by (auto simp: query_object_maps_def split: prod.splits sum.splits)

lemma query_object_catalogs_None:
  "fst (query_object_catalogs env self position catalogs flag) = Inr r \<Longrightarrow> r = RNone"
  by (auto simp: query_object_catalogs_def split: prod.splits sum.splits)

text \<open>
  C1 states that \<^verbatim>\<open>query_object_maps\<close> (resp. \<^verbatim>\<open>query_object_catalogs\<close>) returns exactly
  what \<^verbatim>\<open>query_region_maps\<close> (resp. \<^verbatim>\<open>query_region_catalogs\<close>) returns for the same
  position and selector with the radius \<^verbatim>\<open>"0 arcmin"\<close>. The code calls the region query
  and drops its value: on the example service, for the position \<^verbatim>\<open>m101\<close>, the object
  queries return \<^verbatim>\<open>None\<close> where the region queries return the table list of Herschel
  and the payload dictionary of the Gaia catalog.
\<close>

theorem C1_object_query_returns_None:
  "fst (query_object_maps example_env new_client (PosStr ''m101'') (SelList [''Herschel'']) False)
     = Inr RNone \<and>
   fst (query_region_maps example_env new_client (PosStr ''m101'') (RadStr ''0 arcmin'')
          (SelList [''Herschel'']) False)
     = Inr (RTableList [(''HERSCHEL'',
              QTable (Table [''observation_id'', ''product_url'', ''filter'']
                [[''1342'', ''http://archives.esac.esa.int/1342'', ''250,350,500'']]))]) \<and>
   fst (query_object_catalogs example_env new_client (PosStr ''m101'')
          (SelList [''Gaia DR1 TGA'']) True)
     = Inr RNone \<and>
   fst (query_region_catalogs example_env new_client (PosStr ''m101'') (RadStr ''0 arcmin'')
          (SelList [''Gaia DR1 TGA'']) True)
     = Inr (RDict [(''GAIA DR1 TGA'', QPayload [(''REQUEST'', ''doQuery''), (''LANG'', ''ADQL''),
            (''FORMAT'', ''VOTABLE''),
            (''QUERY'', ''SELECT TOP 2000  name, ra FROM mv_gaia_tgas_fdw WHERE 1=CONTAINS(pos, CIRCLE('ICRS', 150.000000, 41.000000, 0.000000)) ORDER BY phot_g_mean_mag;'')])])"
  by code_simp

subsection \<open>C2: the catalog selector\<close>

lemma sanatize_input_catalogs_list: "sanatize_input_catalogs env (SelList l) = Inr l"
  by (simp add: sanatize_input_catalogs_def)

lemma sanatize_input_catalogs_single:
  "lower s \<noteq> ''all'' \<Longrightarrow> sanatize_input_catalogs env (SelStr s) = Inr [s]"
  by (simp add: sanatize_input_catalogs_def ALL_STRING_def)

lemma sanatize_input_catalogs_all:
  "lower s = ''all'' \<Longrightarrow> sanatize_input_catalogs env (SelStr s) = list_maps env"
  by (simp add: sanatize_input_catalogs_def ALL_STRING_def)

lemma sanatize_input_catalogs_other:
  "sanatize_input_catalogs env SelOther =
     Inl (ValueError ''Catalog must be either a string or a list of catalogs'')"
  by (simp add: sanatize_input_catalogs_def)

lemma sanatize_input_mission_all:
  "lower s = ''all'' \<Longrightarrow> sanatize_input_mission env (SelStr s) = list_maps env"
  by (simp add: sanatize_input_mission_def ALL_STRING_def)

text \<open>
  C2 states that for a catalog query the selector \<^verbatim>\<open>"all"\<close> resolves to the listing of
  catalog names of the catalogs registry document. \<^verbatim>\<open>_sanatize_input_catalogs\<close> calls
  \<^verbatim>\<open>list_maps\<close>, as \<^verbatim>\<open>_sanatize_input_mission\<close> does, so \<^verbatim>\<open>"all"\<close> resolves to the
  mission names of the observations document: on the example service to Herschel and
  INTEGRAL, where \<^verbatim>\<open>list_catalogs\<close> gives the Gaia catalog. The lemmas above are the
  other three cases of the claim, which hold.
\<close>

theorem C2_all_catalogs_lists_maps:
  "sanatize_input_catalogs example_env (SelStr ''all'') = Inr [''Herschel'', ''INTEGRAL''] \<and>
   list_catalogs example_env = Inr [''Gaia DR1 TGA''] \<and>
   list_maps example_env = Inr [''Herschel'', ''INTEGRAL'']"
  by code_simp

subsection \<open>C4: what a parse failure carries\<close>

text \<open>
  C4 as stated: when the body fails to decode, the raised \<^verbatim>\<open>TableParseError\<close> itself
  carries the original response and the underlying exception. The error is constructed
  from a fixed message: two different responses that fail in the same way raise the same
  error, so the response cannot be read off it.
\<close>

theorem C4_counterexample:
  "fst (parse_xml_table example_env new_client (Response ''u'' ''<html>busy</html>'')) =
     Inl (TableParseError PARSE_ERROR_MESSAGE
            (PyException ''E19'' ''File does not appear to be a VOTABLE'')) \<and>
   fst (parse_xml_table example_env new_client (Response ''u'' ''<html>down</html>'')) =
     Inl (TableParseError PARSE_ERROR_MESSAGE
            (PyException ''E19'' ''File does not appear to be a VOTABLE'')) \<and>
   Response ''u'' ''<html>busy</html>'' \<noteq> Response ''u'' ''<html>down</html>''"
  by (simp add: parse_xml_table_def example_env_def str_contains_def)

text \<open>
  C4 as amended: for every response whose body fails to decode as a VOTABLE, parsing
  raises a \<^verbatim>\<open>TableParseError\<close> whose only argument is the fixed message (the underlying
  exception is its implicit context), and the original response and the underlying
  exception are stored on the client object, as \<^verbatim>\<open>self.response\<close> and
  \<^verbatim>\<open>self.table_parse_error\<close>.
\<close>

theorem C4_parse_failure:
  "votable_to_table env response = Inl ex \<Longrightarrow>
   parse_xml_table env self response =
     (Inl (TableParseError PARSE_ERROR_MESSAGE ex),
      self\<lparr>self_response := Some response, self_table_parse_error := Some ex\<rparr>)"
  by (simp add: parse_xml_table_def)

text \<open>C4 as amended, on the example service.\<close>

theorem C4_parse_failure_witness:
  "votable_to_table example_env (Response ''u'' ''<html>busy</html>'') =
     Inl (PyException ''E19'' ''File does not appear to be a VOTABLE'') \<and>
   parse_xml_table example_env new_client (Response ''u'' ''<html>busy</html>'') =
     (Inl (TableParseError PARSE_ERROR_MESSAGE
             (PyException ''E19'' ''File does not appear to be a VOTABLE'')),
      \<lparr>self_response = Some (Response ''u'' ''<html>busy</html>''),
       self_table_parse_error =
         Some (PyException ''E19'' ''File does not appear to be a VOTABLE'')\<rparr>)"
proof -
  have h: "votable_to_table example_env (Response ''u'' ''<html>busy</html>'') =
     Inl (PyException ''E19'' ''File does not appear to be a VOTABLE'')"
    by (simp add: example_env_def str_contains_def)
  from C4_parse_failure [OF h, of new_client] h show ?thesis
    by (simp add: new_client_def)
qed

subsection \<open>C5: missions without rows\<close>



subsection \<open>C9: the file name of a Content-Disposition header\<close>

text \<open>The two ways in which a header with \<^verbatim>\<open>filename=\<close> and no recognized suffix after
  the name start ends: with nothing after \<^verbatim>\<open>filename=\<close> the read of the first character
  of the name raises \<^verbatim>\<open>IndexError\<close>; with a character there, the final branch raises
  \<^verbatim>\<open>ValueError\<close>.\<close>

lemma extract_header_empty_name:
  assumes "headers ''Content-Disposition'' = Some content_disposition"
    and "str_index content_disposition ''filename='' 0 = Inr i"
    and "i + length ''filename='' = length content_disposition"
  shows "extract_file_name_from_response_header headers =
           Inl (IndexError ''string index out of range'')"
  using assms
  by (simp add: extract_file_name_from_response_header_def str_getitem_def Let_def)

lemma extract_header_no_suffix:
  assumes "headers ''Content-Disposition'' = Some content_disposition"
    and "str_index content_disposition ''filename='' 0 = Inr i"
    and "i + length ''filename='' < length content_disposition"
    and "start_index =
           (if content_disposition ! (i + length ''filename='') = CHR 0x22
            then i + length ''filename='' + 1 else i + length ''filename='')"
    and "\<not> str_contains ''.fits'' (slice_from content_disposition start_index)"
    and "\<not> str_contains ''.FTZ'' (slice_from content_disposition start_index)"
    and "\<not> str_contains ''.tar'' (slice_from content_disposition start_index)"
  shows "extract_file_name_from_response_header headers =
           Inl (ValueError (''Could not find file name in header. Content disposition: ''
                  @ content_disposition @ ''.''))"
  using assms
  by (auto simp: extract_file_name_from_response_header_def str_getitem_def Let_def
        FITS_STRING_def FTZ_STRING_def TAR_STRING_def split: if_splits)

text \<open>
  C9 states that the header \<^verbatim>\<open>attachment; filename="obs123.fits"\<close> gives
  \<^verbatim>\<open>obs123.fits\<close>, which holds, and that every header value that contains
  \<^verbatim>\<open>filename=\<close> and no recognized suffix after the name start raises \<^verbatim>\<open>ValueError\<close>.
  A header value that ends with \<^verbatim>\<open>filename=\<close> has no suffix after the name start, and
  the code reads the character at the name start before it looks for a suffix: it raises
  \<^verbatim>\<open>IndexError\<close>.
\<close>

theorem C9_header_without_name_IndexError:
  \<open>extract_file_name_from_response_header
      [''Content-Disposition'' \<mapsto> ''attachment; filename=''] =
     Inl (IndexError ''string index out of range'') \<and>
   extract_file_name_from_response_header
      [''Content-Disposition'' \<mapsto> ''attachment; filename="obs123.fits"''] =
     Inr ''obs123.fits'' \<and>
   extract_file_name_from_response_header
      [''Content-Disposition'' \<mapsto> ''attachment; filename=obs123.txt''] =
     Inl (ValueError ''Could not find file name in header. Content disposition: attachment; filename=obs123.txt.'')\<close>
  by code_simp

subsection \<open>C10: payload-only mode\<close>

text \<open>What a public region query returns is the dictionary that the store loop filled:
  as it is in payload-only mode, wrapped in a table list otherwise.\<close>

lemma query_region_maps_result:
  assumes "query_region_maps env self position radius missions get_query_payload = (Inr r, self')"
  shows "\<exists>sanatized_missions coordinates query_result.
           sanatize_input_mission env missions = Inr sanatized_missions \<and>
           parse_coordinates env position = Inr coordinates \<and>
           store_query_result_maps env self [] sanatized_missions coordinates radius
             get_query_payload = (Inr query_result, self') \<and>
           r = (if get_query_payload then RDict query_result else RTableList query_result)"
  using assms
  by (auto simp: query_region_maps_def sanatize_input_position_def sanatize_input_radius_def
        split: sum.splits prod.splits position.splits radius.splits if_splits)

lemma query_region_catalogs_result:
  assumes "query_region_catalogs env self position radius catalogs get_query_payload = (Inr r, self')"
  shows "\<exists>sanatized_catalogs coordinates query_result.
           sanatize_input_catalogs env catalogs = Inr sanatized_catalogs \<and>
           parse_coordinates env position = Inr coordinates \<and>
           store_query_result_catalogs env self [] sanatized_catalogs coordinates radius
             get_query_payload = (Inr query_result, self') \<and>
           r = (if get_query_payload then RDict query_result else RTableList query_result)"
  using assms
  by (auto simp: query_region_catalogs_def sanatize_input_position_def sanatize_input_radius_def
        split: sum.splits prod.splits position.splits radius.splits if_splits)



subsection \<open>C6: the observation query\<close>



subsection \<open>C8: filter names and archive members\<close>




subsection \<open>C7: the clauses of the catalog query\<close>




end
